theory Spec2Isabelle
  imports Complex_Main
begin

section \<open>JavaScript numbers\<close>

text \<open>
  A JavaScript \<^verbatim>\<open>number\<close> is either finite, one of the two infinities, or NaN. The finite
  values are idealised here as real numbers: rounding and the sign of zero are not part
  of the model. The non-finite values are kept, because the director tests for them
  (\<^verbatim>\<open>isFinite\<close>) and the comparison \<^verbatim>\<open>gs > 1\<close> is false on NaN.
\<close>

datatype jsnum = Num real | PosInf | NegInf | NaN

text \<open>The global \<^verbatim>\<open>isFinite\<close>, on numbers.\<close>

fun isFinite :: "jsnum \<Rightarrow> bool" where
  "isFinite (Num x) = True"
| "isFinite PosInf = False"
| "isFinite NegInf = False"
| "isFinite NaN = False"

text \<open>The relational operator \<^verbatim>\<open>a > b\<close>: false as soon as an operand is NaN.\<close>

fun js_gt :: "jsnum \<Rightarrow> jsnum \<Rightarrow> bool" where
  "js_gt NaN b = False"
| "js_gt a NaN = False"
| "js_gt (Num x) (Num y) = (y < x)"
| "js_gt PosInf PosInf = False"
| "js_gt PosInf b = True"
| "js_gt a PosInf = False"
| "js_gt NegInf b = False"
| "js_gt a NegInf = True"

text \<open>The sign of a number that is not NaN: \<open>-1\<close>, \<open>0\<close> or \<open>1\<close>.\<close>

fun js_sign :: "jsnum \<Rightarrow> real" where
  "js_sign (Num x) = sgn x"
| "js_sign PosInf = 1"
| "js_sign NegInf = - 1"
| "js_sign NaN = 0"

text \<open>
  The operator \<^verbatim>\<open>a * b\<close>: NaN as soon as an operand is NaN, NaN for an infinity times
  zero, otherwise the infinity of the product's sign, or the finite product.
\<close>

fun js_mul :: "jsnum \<Rightarrow> jsnum \<Rightarrow> jsnum" where
  "js_mul NaN b = NaN"
| "js_mul a NaN = NaN"
| "js_mul (Num x) (Num y) = Num (x * y)"
| "js_mul a b =
     (if js_sign a * js_sign b = 0 then NaN
      else if 0 < js_sign a * js_sign b then PosInf else NegInf)"

text \<open>
  \<^verbatim>\<open>Math.hypot(a, b)\<close>: positive infinity as soon as an argument is infinite (also when
  the other one is NaN), otherwise NaN as soon as an argument is NaN, otherwise the
  square root of the sum of the squares.
\<close>

fun hypot :: "jsnum \<Rightarrow> jsnum \<Rightarrow> jsnum" where
  "hypot PosInf b = PosInf"
| "hypot NegInf b = PosInf"
| "hypot a PosInf = PosInf"
| "hypot a NegInf = PosInf"
| "hypot NaN b = NaN"
| "hypot a NaN = NaN"
| "hypot (Num x) (Num y) = Num (sqrt (x\<^sup>2 + y\<^sup>2))"

text \<open>
  The angle of the point \<open>(x, y)\<close> in radians, in \<open>(-\<pi>, \<pi>]\<close>, with the angle \<open>0\<close> at the
  origin (the result of \<^verbatim>\<open>Math.atan2\<close> on positive zeros).
\<close>

definition atan2_real :: "real \<Rightarrow> real \<Rightarrow> real" where
  "atan2_real y x =
     (if 0 < x then arctan (y / x)
      else if x < 0 then (if 0 \<le> y then arctan (y / x) + pi else arctan (y / x) - pi)
      else if 0 < y then pi / 2
      else if y < 0 then - (pi / 2)
      else 0)"

text \<open>
  \<^verbatim>\<open>Math.atan2(y, x)\<close>: NaN as soon as an argument is NaN; the multiples of \<open>\<pi>/4\<close> that the
  language fixes when an argument is infinite; the angle of the point otherwise.
\<close>

fun atan2 :: "jsnum \<Rightarrow> jsnum \<Rightarrow> jsnum" where
  "atan2 NaN x = NaN"
| "atan2 y NaN = NaN"
| "atan2 PosInf PosInf = Num (pi / 4)"
| "atan2 PosInf NegInf = Num (3 * pi / 4)"
| "atan2 PosInf (Num x) = Num (pi / 2)"
| "atan2 NegInf PosInf = Num (- (pi / 4))"
| "atan2 NegInf NegInf = Num (- (3 * pi / 4))"
| "atan2 NegInf (Num x) = Num (- (pi / 2))"
| "atan2 (Num y) PosInf = Num 0"
| "atan2 (Num y) NegInf = (if 0 \<le> y then Num pi else Num (- pi))"
| "atan2 (Num y) (Num x) = Num (atan2_real y x)"

text \<open>The constant \<^verbatim>\<open>Avionics.Utils.RAD2DEG\<close> of the simulator: degrees per radian.\<close>

definition RAD2DEG :: jsnum where
  "RAD2DEG = Num (180 / pi)"

text \<open>
  Modelled from the spec: \<^verbatim>\<open>MathUtils.normalizeAngleDeg\<close> (in \<^verbatim>\<open>math/MathUtils\<close>, which is
  not among the sources). The specification says of it that it normalises an angle in
  degrees into \<open>[0, 360)\<close>: the angle is reduced by the whole number of turns below it.
  A non-finite angle has no remainder: the result is NaN.
\<close>

fun normalizeAngleDeg :: "jsnum \<Rightarrow> jsnum" where
  "normalizeAngleDeg (Num a) = Num (a - 360 * of_int \<lfloor>a / 360\<rfloor>)"
| "normalizeAngleDeg a = NaN"

section \<open>The navigation data provider\<close>

text \<open>
  \<^verbatim>\<open>DirectorLNavRollSteerComputerDataProvider\<close>: the three values it publishes are
  \<^verbatim>\<open>null\<close> until the first update.
\<close>

record DataProvider =
  gs :: "jsnum option"
  track :: "jsnum option"
  heading :: "jsnum option"

definition DataProvider_new :: DataProvider where
  "DataProvider_new = \<lparr>gs = None, track = None, heading = None\<rparr>"

text \<open>
  \<^verbatim>\<open>update()\<close> reads the SimVars \<^verbatim>\<open>VELOCITY WORLD X\<close> and \<^verbatim>\<open>VELOCITY WORLD Z\<close> (knots) and
  \<^verbatim>\<open>PLANE HEADING DEGREES TRUE\<close> (degrees); the three readings are the arguments here.
  The heading is read once on either branch: in the low-speed branch the reading that
  became the track is reused.
\<close>

definition DataProvider_update :: "jsnum \<Rightarrow> jsnum \<Rightarrow> jsnum \<Rightarrow> DataProvider \<Rightarrow> DataProvider" where
  "DataProvider_update velocityEW velocityNS headingTrue p =
     (let g = hypot velocityEW velocityNS;
          p1 = p\<lparr>gs := Some g\<rparr>;
          p2 = (if js_gt g (Num 1)
                then p1\<lparr>track := Some (normalizeAngleDeg (js_mul (atan2 velocityEW velocityNS) RAD2DEG))\<rparr>
                else p1\<lparr>track := Some headingTrue\<rparr>)
      in p2\<lparr>heading := Some headingTrue\<rparr>)"

section \<open>Types of the autopilot\<close>

text \<open>
  \<^verbatim>\<open>DirectorState\<close> (declared in \<^verbatim>\<open>PlaneDirector\<close>): the spec's Disengaged, Armed and Active.
\<close>

datatype DirectorState = Inactive | Armed | Active

text \<open>\<^verbatim>\<open>NavSourceType\<close> (declared in \<^verbatim>\<open>NavProcessor\<close>); the director only tests for \<open>Gps\<close>.\<close>

datatype NavSourceType = Nav | Gps | Adf

text \<open>
  The autopilot values the director reads: \<^verbatim>\<open>maxBankAngle.get()\<close>, \<^verbatim>\<open>simRate.get()\<close>, the
  type of \<^verbatim>\<open>cdiSource.get()\<close> (\<open>None\<close> when there is no source) and the result of the
  optional function \<^verbatim>\<open>navToNavTransferInProgress\<close> (\<open>None\<close> when it is not defined). The
  field \<open>others\<close> stands for everything else a caller's guard may read.
\<close>

record 'x APValues =
  maxBankAngle :: jsnum
  simRate :: jsnum
  cdiSource :: "NavSourceType option"
  navToNavTransferInProgress :: "bool option"
  others :: 'x

record APGpsSteerDirectorSteerCommand =
  isValid :: bool
  isHeading :: bool
  courseToSteer :: jsnum
  trackRadius :: jsnum
  dtk :: jsnum
  xtk :: jsnum
  tae :: jsnum

text \<open>
  \<^verbatim>\<open>LNavRollSteerCommand\<close> (declared in \<^verbatim>\<open>LNavTypes\<close>): the two fields the director reads,
  \<^verbatim>\<open>isValid\<close> (here \<open>rollIsValid\<close>, the name \<open>isValid\<close> being taken by the GPS steering
  command) and \<^verbatim>\<open>desiredBankAngle\<close>.
\<close>

record LNavRollSteerCommand =
  rollIsValid :: bool
  desiredBankAngle :: jsnum

record APGpsSteerDirectorState =
  gpsSteerCommand :: APGpsSteerDirectorSteerCommand
  rollSteerCommand :: "LNavRollSteerCommand option"

type_synonym 'x guard = "'x APValues \<Rightarrow> APGpsSteerDirectorState \<Rightarrow> bool"

text \<open>
  What a call of the director reads from outside: the autopilot values, the value of
  \<^verbatim>\<open>steerCommand.get()\<close>, the three SimVar readings of the data provider and \<^verbatim>\<open>Date.now()\<close>.
  The accessors are pure, so one call sees one value of each.
\<close>

record 'x env =
  apValues :: "'x APValues"
  steerCommand :: APGpsSteerDirectorSteerCommand
  velocityEW :: jsnum
  velocityNS :: jsnum
  headingTrue :: jsnum
  now :: int

text \<open>An option of type \<^verbatim>\<open>number | (() => number) | undefined\<close>.\<close>

datatype 'x num_option = OptUndefined | OptNumber jsnum | OptFunction "'x env \<Rightarrow> jsnum"

record 'x APGpsSteerDirectorOptions =
  maxBankAngleOpt :: "'x num_option"
  bankRateOpt :: "'x num_option"
  canArm :: "'x guard option"
  canRemainArmed :: "'x guard option"
  canActivate :: "'x guard option"
  canRemainActive :: "'x guard option"

text \<open>
  \<^verbatim>\<open>LNavRollSteerComputer\<close> is not among the sources: the director is modelled over any
  computer, given by its initial state and its three operations. \<open>rsc_update\<close> receives
  what the director hands to the computer: the data provider, the steering command, the
  value of the maximum bank angle accessor and the time.
\<close>

record 'c RollSteerComputer =
  rsc_new :: 'c
  rsc_update :: "DataProvider \<Rightarrow> APGpsSteerDirectorSteerCommand \<Rightarrow> jsnum \<Rightarrow> int \<Rightarrow> 'c \<Rightarrow> 'c"
  rsc_reset :: "'c \<Rightarrow> 'c"
  rsc_steerCommand :: "'c \<Rightarrow> LNavRollSteerCommand"

text \<open>
  The calls the director makes to the outside: the three lifecycle callbacks and the
  bank-drive sink \<^verbatim>\<open>driveBank(bank, rate?)\<close>.
\<close>

datatype effect =
    CallOnActivate
  | CallOnArm
  | CallOnDeactivate
  | CallDriveBank jsnum "jsnum option"

section \<open>The director\<close>

text \<open>
  The fields of \<^verbatim>\<open>APGpsSteerDirector\<close>. The four assignable callbacks are booleans: whether
  a function is assigned. A call of an assigned callback is appended to \<open>effects\<close>, the
  log of the calls made so far (oldest first); callbacks do not call back into the
  director. \<open>isNavLock\<close> is the value held by the subject of that name (\<^verbatim>\<open>set\<close> stores
  its argument), which a subscription copies to the SimVar \<^verbatim>\<open>AUTOPILOT NAV1 LOCK\<close>; the
  SimVar itself is not part of the model. \<open>bankRate\<close> is the option captured by
  \<^verbatim>\<open>driveBankFunc\<close>.
\<close>

record ('x, 'c) APGpsSteerDirector =
  state :: DirectorState
  onActivate :: bool
  onArm :: bool
  onDeactivate :: bool
  driveBank :: bool
  isNavLock :: bool
  callbackState :: APGpsSteerDirectorState
  maxBankAngleFunc :: "'x env \<Rightarrow> jsnum"
  bankRate :: "'x num_option"
  canArmFunc :: "'x guard"
  canRemainArmedFunc :: "'x guard"
  canActivateFunc :: "'x guard"
  canRemainActiveFunc :: "'x guard"
  lnavRollSteerComputerDataProvider :: DataProvider
  lnavRollSteerComputer :: 'c
  effects :: "effect list"

definition emit :: "effect \<Rightarrow> ('x, 'c) APGpsSteerDirector \<Rightarrow> ('x, 'c) APGpsSteerDirector" where
  "emit ev d = d\<lparr>effects := effects d @ [ev]\<rparr>"

text \<open>The default guards of the constructor.\<close>

definition default_canArm :: "'x guard" where
  "default_canArm apValuesInner st = isValid (gpsSteerCommand st)"

definition default_canRemainArmed :: "'x guard" where
  "default_canRemainArmed apValuesInner st = isValid (gpsSteerCommand st)"

definition default_canActivate :: "'x guard" where
  "default_canActivate apValuesInner st =
     (case rollSteerCommand st of None \<Rightarrow> False | Some r \<Rightarrow> rollIsValid r)"

definition default_canRemainActive :: "'x guard" where
  "default_canRemainActive apValuesInner st =
     (case rollSteerCommand st of
        None \<Rightarrow> False
      | Some r \<Rightarrow> rollIsValid r
          \<and> (cdiSource apValuesInner = Some Gps
             \<or> (case navToNavTransferInProgress apValuesInner of None \<Rightarrow> False | Some b \<Rightarrow> b)))"

text \<open>
  The constructor. \<open>opts\<close> is \<open>None\<close> when no options object is passed; \<open>e\<close> gives the
  value of \<^verbatim>\<open>steerCommand.get()\<close> that initialises the callback state.
\<close>

definition APGpsSteerDirector_new ::
  "'c RollSteerComputer \<Rightarrow> 'x APGpsSteerDirectorOptions option \<Rightarrow> 'x env \<Rightarrow> ('x, 'c) APGpsSteerDirector" where
  "APGpsSteerDirector_new C opts e =
     \<lparr>state = Inactive,
      onActivate = False, onArm = False, onDeactivate = False, driveBank = False,
      isNavLock = False,
      callbackState = \<lparr>gpsSteerCommand = steerCommand e, rollSteerCommand = None\<rparr>,
      maxBankAngleFunc =
        (case (case opts of None \<Rightarrow> OptUndefined | Some os \<Rightarrow> maxBankAngleOpt os) of
           OptNumber n \<Rightarrow> (\<lambda>_. n)
         | OptFunction f \<Rightarrow> f
         | OptUndefined \<Rightarrow> (\<lambda>e'. maxBankAngle (apValues e'))),
      bankRate = (case opts of None \<Rightarrow> OptUndefined | Some os \<Rightarrow> bankRateOpt os),
      canArmFunc =
        (case Option.bind opts canArm of Some g \<Rightarrow> g | None \<Rightarrow> default_canArm),
      canRemainArmedFunc =
        (case Option.bind opts canRemainArmed of Some g \<Rightarrow> g | None \<Rightarrow> default_canRemainArmed),
      canActivateFunc =
        (case Option.bind opts canActivate of Some g \<Rightarrow> g | None \<Rightarrow> default_canActivate),
      canRemainActiveFunc =
        (case Option.bind opts canRemainActive of Some g \<Rightarrow> g | None \<Rightarrow> default_canRemainActive),
      lnavRollSteerComputerDataProvider = DataProvider_new,
      lnavRollSteerComputer = rsc_new C,
      effects = []\<rparr>"

text \<open>
  \<^verbatim>\<open>driveBankFunc\<close>: one of three closures, chosen by the type of the bank rate option. Each
  forwards a finite bank to \<^verbatim>\<open>driveBank\<close> when one is assigned.
\<close>

definition driveBankFunc ::
  "'x env \<Rightarrow> jsnum \<Rightarrow> ('x, 'c) APGpsSteerDirector \<Rightarrow> ('x, 'c) APGpsSteerDirector" where
  "driveBankFunc e bank d =
     (if isFinite bank \<and> driveBank d
      then (case bankRate d of
              OptNumber r \<Rightarrow> emit (CallDriveBank bank (Some (js_mul r (simRate (apValues e))))) d
            | OptFunction f \<Rightarrow> emit (CallDriveBank bank (Some (js_mul (f e) (simRate (apValues e))))) d
            | OptUndefined \<Rightarrow> emit (CallDriveBank bank None) d)
      else d)"

definition updateCallbackState ::
  "LNavRollSteerCommand option \<Rightarrow> 'x env \<Rightarrow> ('x, 'c) APGpsSteerDirector \<Rightarrow> ('x, 'c) APGpsSteerDirector" where
  "updateCallbackState r e d =
     d\<lparr>callbackState := \<lparr>gpsSteerCommand = steerCommand e, rollSteerCommand = r\<rparr>\<rparr>"

definition activate :: "('x, 'c) APGpsSteerDirector \<Rightarrow> ('x, 'c) APGpsSteerDirector" where
  "activate d =
     (let d1 = d\<lparr>state := Active\<rparr>;
          d2 = (if onActivate d1 then emit CallOnActivate d1 else d1)
      in d2\<lparr>isNavLock := True\<rparr>)"

definition arm :: "'x env \<Rightarrow> ('x, 'c) APGpsSteerDirector \<Rightarrow> ('x, 'c) APGpsSteerDirector" where
  "arm e d =
     (if state d = Inactive
      then (let d1 = updateCallbackState None e d
            in if canArmFunc d1 (apValues e) (callbackState d1)
               then (let d2 = d1\<lparr>state := Armed\<rparr>;
                         d3 = (if onArm d2 then emit CallOnArm d2 else d2)
                     in d3\<lparr>isNavLock := True\<rparr>)
               else d1)
      else d)"

definition deactivate ::
  "'c RollSteerComputer \<Rightarrow> ('x, 'c) APGpsSteerDirector \<Rightarrow> ('x, 'c) APGpsSteerDirector" where
  "deactivate C d =
     (let d1 = d\<lparr>state := Inactive\<rparr>;
          d2 = (if onDeactivate d1 then emit CallOnDeactivate d1 else d1);
          d3 = d2\<lparr>isNavLock := False\<rparr>
      in d3\<lparr>lnavRollSteerComputer := rsc_reset C (lnavRollSteerComputer d3)\<rparr>)"

definition tryActivate :: "'x env \<Rightarrow> ('x, 'c) APGpsSteerDirector \<Rightarrow> ('x, 'c) APGpsSteerDirector" where
  "tryActivate e d =
     (if canActivateFunc d (apValues e) (callbackState d) then activate d else d)"

text \<open>
  The first three statements of \<^verbatim>\<open>update()\<close>: the data provider, the computer and the
  callback state are refreshed, in this order.
\<close>

definition update_refresh ::
  "'c RollSteerComputer \<Rightarrow> 'x env \<Rightarrow> ('x, 'c) APGpsSteerDirector \<Rightarrow> ('x, 'c) APGpsSteerDirector" where
  "update_refresh C e d =
     (let d1 = d\<lparr>lnavRollSteerComputerDataProvider :=
                  DataProvider_update (velocityEW e) (velocityNS e) (headingTrue e)
                    (lnavRollSteerComputerDataProvider d)\<rparr>;
          d2 = d1\<lparr>lnavRollSteerComputer :=
                  rsc_update C (lnavRollSteerComputerDataProvider d1) (steerCommand e)
                    (maxBankAngleFunc d1 e) (now e) (lnavRollSteerComputer d1)\<rparr>
      in updateCallbackState (Some (rsc_steerCommand C (lnavRollSteerComputer d2))) e d2)"

text \<open>The second \<^verbatim>\<open>if\<close> statement of \<^verbatim>\<open>update()\<close>, on the Active state.\<close>

definition update_active ::
  "'c RollSteerComputer \<Rightarrow> 'x env \<Rightarrow> ('x, 'c) APGpsSteerDirector \<Rightarrow> ('x, 'c) APGpsSteerDirector" where
  "update_active C e d =
     (if state d = Active
      then (if \<not> canRemainActiveFunc d (apValues e) (callbackState d)
            then deactivate C d
            else (let rollSteerCommand = rsc_steerCommand C (lnavRollSteerComputer d)
                  in if rollIsValid rollSteerCommand \<and> isFinite (desiredBankAngle rollSteerCommand)
                     then driveBankFunc e (desiredBankAngle rollSteerCommand) d
                     else d))
      else d)"

text \<open>
  \<^verbatim>\<open>update()\<close>: the refresh, then the \<^verbatim>\<open>if\<close> statement on the Armed state, whose first branch
  returns, then the one on the Active state, which sees the state the first one left.
\<close>

definition update ::
  "'c RollSteerComputer \<Rightarrow> 'x env \<Rightarrow> ('x, 'c) APGpsSteerDirector \<Rightarrow> ('x, 'c) APGpsSteerDirector" where
  "update C e d =
     (let d3 = update_refresh C e d
      in if state d3 = Armed
         then (if \<not> canRemainArmedFunc d3 (apValues e) (callbackState d3)
               then deactivate C d3
               else update_active C e (tryActivate e d3))
         else update_active C e d3)"

section \<open>Sequences of operations\<close>

text \<open>
  What an orchestrator can do with a director: call one of its four methods, or assign
  the four callback fields (\<^verbatim>\<open>onActivate\<close>, \<^verbatim>\<open>onArm\<close>, \<^verbatim>\<open>onDeactivate\<close>, \<^verbatim>\<open>driveBank\<close>).
\<close>

datatype operation = Arm | Activate | Deactivate | Update | SetCallbacks bool bool bool bool

fun step ::
  "'c RollSteerComputer \<Rightarrow> operation \<times> 'x env \<Rightarrow> ('x, 'c) APGpsSteerDirector \<Rightarrow> ('x, 'c) APGpsSteerDirector" where
  "step C (Arm, e) d = arm e d"
| "step C (Activate, e) d = activate d"
| "step C (Deactivate, e) d = deactivate C d"
| "step C (Update, e) d = update C e d"
| "step C (SetCallbacks a b c f, e) d =
     d\<lparr>onActivate := a, onArm := b, onDeactivate := c, driveBank := f\<rparr>"

fun run ::
  "'c RollSteerComputer \<Rightarrow> (operation \<times> 'x env) list \<Rightarrow> ('x, 'c) APGpsSteerDirector \<Rightarrow> ('x, 'c) APGpsSteerDirector" where
  "run C [] d = d"
| "run C (x # xs) d = run C xs (step C x d)"

text \<open>
  The edges of the engagement state named by the specification, each with the operation
  that may take it: Disengaged to Armed by arming, Armed to Active by an activation (in
  \<^verbatim>\<open>update()\<close> or by \<^verbatim>\<open>activate()\<close>), Armed or Active to Disengaged by a deactivation (by
  \<^verbatim>\<open>deactivate()\<close> or in \<^verbatim>\<open>update()\<close>). Keeping the state is always allowed.
\<close>

definition spec_edge :: "operation \<Rightarrow> DirectorState \<Rightarrow> DirectorState \<Rightarrow> bool" where
  "spec_edge opn s s' =
     (s' = s
      \<or> (s = Inactive \<and> s' = Armed \<and> opn = Arm)
      \<or> (s = Armed \<and> s' = Active \<and> (opn = Update \<or> opn = Activate))
      \<or> ((s = Armed \<or> s = Active) \<and> s' = Inactive \<and> (opn = Deactivate \<or> opn = Update)))"

text \<open>The edge that the public \<^verbatim>\<open>activate()\<close> adds: Disengaged to Active.\<close>

definition code_edge :: "operation \<Rightarrow> DirectorState \<Rightarrow> DirectorState \<Rightarrow> bool" where
  "code_edge opn s s' = (spec_edge opn s s' \<or> (opn = Activate \<and> s = Inactive \<and> s' = Active))"

text \<open>Whether every step of a run changes the state along an edge.\<close>

fun along ::
  "(operation \<Rightarrow> DirectorState \<Rightarrow> DirectorState \<Rightarrow> bool) \<Rightarrow> 'c RollSteerComputer \<Rightarrow>
   (operation \<times> 'x env) list \<Rightarrow> ('x, 'c) APGpsSteerDirector \<Rightarrow> bool" where
  "along edge C [] d = True"
| "along edge C (x # xs) d =
     (edge (fst x) (state d) (state (step C x d)) \<and> along edge C xs (step C x d))"

text \<open>The calls made between an earlier state of the director and a later one.\<close>

definition emitted :: "('x, 'c) APGpsSteerDirector \<Rightarrow> ('x, 'c) APGpsSteerDirector \<Rightarrow> effect list" where
  "emitted d d' = drop (length (effects d)) (effects d')"

text \<open>The guidance-authority invariant: the indicator is on exactly when engaged.\<close>

definition navLock_inv :: "('x, 'c) APGpsSteerDirector \<Rightarrow> bool" where
  "navLock_inv d = (isNavLock d = (state d \<noteq> Inactive))"

text \<open>
  A small roll-steer computer and environment on which the model is run: the computer's
  state is its command, an update copies the validity of the steering command and takes
  the error \<open>tae\<close> as the bank angle, a reset invalidates the command.
\<close>

definition demo_computer :: "LNavRollSteerCommand RollSteerComputer" where
  "demo_computer =
     \<lparr>rsc_new = \<lparr>rollIsValid = False, desiredBankAngle = Num 0\<rparr>,
      rsc_update = (\<lambda>p cmd maxBank t c. \<lparr>rollIsValid = isValid cmd, desiredBankAngle = tae cmd\<rparr>),
      rsc_reset = (\<lambda>c. c\<lparr>rollIsValid := False\<rparr>),
      rsc_steerCommand = (\<lambda>c. c)\<rparr>"

definition demo_command :: "bool \<Rightarrow> jsnum \<Rightarrow> APGpsSteerDirectorSteerCommand" where
  "demo_command v err =
     \<lparr>isValid = v, isHeading = True, courseToSteer = Num 90, trackRadius = Num (pi / 2),
      dtk = Num 90, xtk = Num 0, tae = err\<rparr>"

definition demo_env :: "NavSourceType \<Rightarrow> bool \<Rightarrow> jsnum \<Rightarrow> unit env" where
  "demo_env src v err =
     \<lparr>apValues = \<lparr>maxBankAngle = Num 25, simRate = Num 1, cdiSource = Some src,
                  navToNavTransferInProgress = None, others = ()\<rparr>,
      steerCommand = demo_command v err,
      velocityEW = Num 0, velocityNS = Num 50, headingTrue = Num 10, now = 0\<rparr>"

definition demo_director :: "(unit, LNavRollSteerCommand) APGpsSteerDirector" where
  "demo_director =
     (APGpsSteerDirector_new demo_computer None (demo_env Gps True (Num 5)))
       \<lparr>onActivate := True, onArm := True, onDeactivate := True, driveBank := True\<rparr>"

definition demo_armed :: "(unit, LNavRollSteerCommand) APGpsSteerDirector" where
  "demo_armed = arm (demo_env Gps True (Num 5)) demo_director"

definition demo_active :: "(unit, LNavRollSteerCommand) APGpsSteerDirector" where
  "demo_active = update demo_computer (demo_env Gps True (Num 5)) demo_armed"

text \<open>A director whose caller lets it remain active whatever the roll command is.\<close>

definition demo_options :: "unit APGpsSteerDirectorOptions" where
  "demo_options =
     \<lparr>maxBankAngleOpt = OptNumber (Num 30), bankRateOpt = OptNumber (Num 10),
      canArm = None, canRemainArmed = None, canActivate = None,
      canRemainActive = Some (\<lambda>apValuesInner st. True)\<rparr>"

definition demo_lenient :: "(unit, LNavRollSteerCommand) APGpsSteerDirector" where
  "demo_lenient =
     run demo_computer
       [(SetCallbacks True True True True, demo_env Gps True (Num 5)),
        (Arm, demo_env Gps True (Num 5)),
        (Update, demo_env Gps True (Num 5))]
       (APGpsSteerDirector_new demo_computer (Some demo_options) (demo_env Gps True (Num 5)))"

section \<open>Lemmas on numbers and angles\<close>

lemma isFinite_Num: "isFinite a \<longleftrightarrow> (\<exists>r. a = Num r)"
  by (cases a) simp_all

lemma normalizeAngleDeg_range:
  "\<exists>t. normalizeAngleDeg (Num a) = Num t \<and> 0 \<le> t \<and> t < 360"
proof -
  let ?k = "\<lfloor>a / 360\<rfloor>"
  have lo: "of_int ?k \<le> a / 360" by (rule of_int_floor_le)
  have hi: "a / 360 < of_int ?k + 1" by linarith
  from lo have "360 * of_int ?k \<le> a" by linarith
  moreover from hi have "a < 360 * of_int ?k + 360" by linarith
  ultimately show ?thesis by simp
qed

lemma atan2_finite: "y \<noteq> NaN \<Longrightarrow> x \<noteq> NaN \<Longrightarrow> isFinite (atan2 y x)"
  by (cases y; cases x) simp_all

lemma to_degrees_finite: "isFinite a \<Longrightarrow> isFinite (js_mul a RAD2DEG)"
  by (cases a) (simp_all add: RAD2DEG_def)

section \<open>The effect of each operation on the fields\<close>

lemma refresh_frame:
  "state (update_refresh C e d) = state d"
  "isNavLock (update_refresh C e d) = isNavLock d"
  "effects (update_refresh C e d) = effects d"
  "onActivate (update_refresh C e d) = onActivate d"
  "onArm (update_refresh C e d) = onArm d"
  "onDeactivate (update_refresh C e d) = onDeactivate d"
  "driveBank (update_refresh C e d) = driveBank d"
  "bankRate (update_refresh C e d) = bankRate d"
  "canArmFunc (update_refresh C e d) = canArmFunc d"
  "canRemainArmedFunc (update_refresh C e d) = canRemainArmedFunc d"
  "canActivateFunc (update_refresh C e d) = canActivateFunc d"
  "canRemainActiveFunc (update_refresh C e d) = canRemainActiveFunc d"
  by (simp_all add: update_refresh_def updateCallbackState_def Let_def)

lemma refresh_callbackState:
  "callbackState (update_refresh C e d) =
     \<lparr>gpsSteerCommand = steerCommand e,
      rollSteerCommand = Some (rsc_steerCommand C (lnavRollSteerComputer (update_refresh C e d)))\<rparr>"
  by (simp add: update_refresh_def updateCallbackState_def Let_def)

lemma refresh_provider:
  "lnavRollSteerComputerDataProvider (update_refresh C e d) =
     DataProvider_update (velocityEW e) (velocityNS e) (headingTrue e)
       (lnavRollSteerComputerDataProvider d)"
  by (simp add: update_refresh_def updateCallbackState_def Let_def)

lemma refresh_computer:
  "lnavRollSteerComputer (update_refresh C e d) =
     rsc_update C
       (DataProvider_update (velocityEW e) (velocityNS e) (headingTrue e)
          (lnavRollSteerComputerDataProvider d))
       (steerCommand e) (maxBankAngleFunc d e) (now e) (lnavRollSteerComputer d)"
  by (simp add: update_refresh_def updateCallbackState_def Let_def)

lemma deactivate_fields:
  "state (deactivate C d) = Inactive"
  "isNavLock (deactivate C d) = False"
  "effects (deactivate C d) = effects d @ (if onDeactivate d then [CallOnDeactivate] else [])"
  "lnavRollSteerComputer (deactivate C d) = rsc_reset C (lnavRollSteerComputer d)"
  by (simp_all add: deactivate_def emit_def Let_def)

lemma activate_fields:
  "state (activate d) = Active"
  "isNavLock (activate d) = True"
  "effects (activate d) = effects d @ (if onActivate d then [CallOnActivate] else [])"
  "lnavRollSteerComputer (activate d) = lnavRollSteerComputer d"
  "callbackState (activate d) = callbackState d"
  "canRemainActiveFunc (activate d) = canRemainActiveFunc d"
  "driveBank (activate d) = driveBank d"
  "bankRate (activate d) = bankRate d"
  by (simp_all add: activate_def emit_def Let_def)

lemma driveBankFunc_fields:
  "state (driveBankFunc e b d) = state d"
  "isNavLock (driveBankFunc e b d) = isNavLock d"
  "lnavRollSteerComputer (driveBankFunc e b d) = lnavRollSteerComputer d"
  by (simp_all add: driveBankFunc_def emit_def split: num_option.splits)

lemma driveBankFunc_effects:
  "\<exists>rate. effects (driveBankFunc e b d) =
     effects d @ (if isFinite b \<and> driveBank d then [CallDriveBank b rate] else [])"
  by (cases "bankRate d") (simp_all add: driveBankFunc_def emit_def)

lemma update_active_state:
  "state (update_active C e d) =
     (if state d = Active \<and> \<not> canRemainActiveFunc d (apValues e) (callbackState d)
      then Inactive else state d)"
  by (simp add: update_active_def deactivate_fields driveBankFunc_fields Let_def)

lemma update_active_isNavLock:
  "isNavLock (update_active C e d) =
     (if state d = Active \<and> \<not> canRemainActiveFunc d (apValues e) (callbackState d)
      then False else isNavLock d)"
  by (simp add: update_active_def deactivate_fields driveBankFunc_fields Let_def)

lemma update_active_effects:
  "\<exists>rate. effects (update_active C e d) = effects d @
     (if state d = Active
      then (if \<not> canRemainActiveFunc d (apValues e) (callbackState d)
            then (if onDeactivate d then [CallOnDeactivate] else [])
            else (let r = rsc_steerCommand C (lnavRollSteerComputer d)
                  in if rollIsValid r \<and> isFinite (desiredBankAngle r) \<and> driveBank d
                     then [CallDriveBank (desiredBankAngle r) rate] else []))
      else [])"
  using driveBankFunc_effects [of e "desiredBankAngle (rsc_steerCommand C (lnavRollSteerComputer d))" d]
  by (auto simp add: update_active_def deactivate_fields Let_def)

lemma tryActivate_fields:
  "state (tryActivate e d) = (if canActivateFunc d (apValues e) (callbackState d) then Active else state d)"
  "isNavLock (tryActivate e d) = (if canActivateFunc d (apValues e) (callbackState d) then True else isNavLock d)"
  "effects (tryActivate e d) = effects d @
     (if canActivateFunc d (apValues e) (callbackState d) \<and> onActivate d then [CallOnActivate] else [])"
  "lnavRollSteerComputer (tryActivate e d) = lnavRollSteerComputer d"
  "callbackState (tryActivate e d) = callbackState d"
  "canRemainActiveFunc (tryActivate e d) = canRemainActiveFunc d"
  "driveBank (tryActivate e d) = driveBank d"
  "onDeactivate (tryActivate e d) = onDeactivate d"
  by (simp_all add: tryActivate_def activate_def emit_def Let_def)

lemma update_Inactive_eq:
  "state d = Inactive \<Longrightarrow> update C e d = update_refresh C e d"
  by (simp add: update_def update_active_def refresh_frame Let_def)

lemma update_Active_eq:
  "state d = Active \<Longrightarrow> update C e d = update_active C e (update_refresh C e d)"
  by (simp add: update_def refresh_frame Let_def)

lemma update_Armed_eq:
  "state d = Armed \<Longrightarrow> update C e d =
     (if \<not> canRemainArmedFunc d (apValues e) (callbackState (update_refresh C e d))
      then deactivate C (update_refresh C e d)
      else update_active C e (tryActivate e (update_refresh C e d)))"
  by (simp add: update_def refresh_frame Let_def)

lemma update_state_cases:
  "state (update C e d) =
     (case state d of
        Inactive \<Rightarrow> Inactive
      | Armed \<Rightarrow>
          (if \<not> canRemainArmedFunc d (apValues e) (callbackState (update_refresh C e d)) then Inactive
           else if \<not> canActivateFunc d (apValues e) (callbackState (update_refresh C e d)) then Armed
           else if \<not> canRemainActiveFunc d (apValues e) (callbackState (update_refresh C e d)) then Inactive
           else Active)
      | Active \<Rightarrow>
          (if \<not> canRemainActiveFunc d (apValues e) (callbackState (update_refresh C e d)) then Inactive
           else Active))"
  by (cases "state d")
    (simp_all add: update_Inactive_eq update_Armed_eq update_Active_eq update_active_state
      tryActivate_fields deactivate_fields refresh_frame)

lemma update_navLock_inv: "navLock_inv d \<Longrightarrow> navLock_inv (update C e d)"
  by (cases "state d")
    (simp_all add: navLock_inv_def update_Inactive_eq update_Armed_eq update_Active_eq
      update_active_state update_active_isNavLock tryActivate_fields deactivate_fields refresh_frame)

lemma step_navLock_inv: "navLock_inv d \<Longrightarrow> navLock_inv (step C x d)"
proof -
  assume inv: "navLock_inv d"
  obtain opn e where x: "x = (opn, e)" by (cases x)
  show ?thesis
  proof (cases opn)
    case Arm
    with inv x show ?thesis
      by (simp add: navLock_inv_def arm_def updateCallbackState_def emit_def Let_def)
  next
    case Activate
    with x show ?thesis by (simp add: navLock_inv_def activate_fields)
  next
    case Deactivate
    with x show ?thesis by (simp add: navLock_inv_def deactivate_fields)
  next
    case Update
    with inv x show ?thesis by (simp add: update_navLock_inv)
  next
    case (SetCallbacks a b c f)
    with inv x show ?thesis by (simp add: navLock_inv_def)
  qed
qed

lemma run_navLock_inv: "navLock_inv d \<Longrightarrow> navLock_inv (run C xs d)"
  by (induction xs arbitrary: d) (simp_all add: step_navLock_inv)

lemma new_navLock_inv: "navLock_inv (APGpsSteerDirector_new C opts e)"
  by (simp add: navLock_inv_def APGpsSteerDirector_new_def)

lemma step_code_edge: "code_edge (fst x) (state d) (state (step C x d))"
proof -
  obtain opn e where x: "x = (opn, e)" by (cases x)
  show ?thesis
  proof (cases opn)
    case Arm
    with x show ?thesis
      by (simp add: code_edge_def spec_edge_def arm_def updateCallbackState_def emit_def Let_def)
  next
    case Activate
    with x show ?thesis
      by (cases "state d") (simp_all add: code_edge_def spec_edge_def activate_fields)
  next
    case Deactivate
    with x show ?thesis
      by (cases "state d") (simp_all add: code_edge_def spec_edge_def deactivate_fields)
  next
    case Update
    with x show ?thesis
      by (cases "state d") (simp_all add: code_edge_def spec_edge_def update_state_cases)
  next
    case (SetCallbacks a b c f)
    with x show ?thesis by (simp add: code_edge_def spec_edge_def)
  qed
qed

lemma step_spec_edge:
  "fst x \<noteq> Activate \<or> state d \<noteq> Inactive \<Longrightarrow> spec_edge (fst x) (state d) (state (step C x d))"
  using step_code_edge [of x d C] by (auto simp add: code_edge_def)

lemma along_code_edge: "along code_edge C xs d"
  by (induction xs arbitrary: d) (simp_all add: step_code_edge)

lemma along_spec_edge: "\<forall>x\<in>set xs. fst x \<noteq> Activate \<Longrightarrow> along spec_edge C xs d"
  by (induction xs arbitrary: d) (simp_all add: step_spec_edge)

lemma update_effects:
  "\<exists>rate. effects (update C e d) = effects d @
     (case state d of
        Inactive \<Rightarrow> []
      | Armed \<Rightarrow>
          (if \<not> canRemainArmedFunc d (apValues e) (callbackState (update_refresh C e d))
           then (if onDeactivate d then [CallOnDeactivate] else [])
           else if \<not> canActivateFunc d (apValues e) (callbackState (update_refresh C e d)) then []
           else (if onActivate d then [CallOnActivate] else []) @
             (if \<not> canRemainActiveFunc d (apValues e) (callbackState (update_refresh C e d))
              then (if onDeactivate d then [CallOnDeactivate] else [])
              else (let r = rsc_steerCommand C (lnavRollSteerComputer (update_refresh C e d))
                    in if rollIsValid r \<and> isFinite (desiredBankAngle r) \<and> driveBank d
                       then [CallDriveBank (desiredBankAngle r) rate] else [])))
      | Active \<Rightarrow>
          (if \<not> canRemainActiveFunc d (apValues e) (callbackState (update_refresh C e d))
           then (if onDeactivate d then [CallOnDeactivate] else [])
           else (let r = rsc_steerCommand C (lnavRollSteerComputer (update_refresh C e d))
                 in if rollIsValid r \<and> isFinite (desiredBankAngle r) \<and> driveBank d
                    then [CallDriveBank (desiredBankAngle r) rate] else [])))"
proof (cases "state d")
  case Inactive
  then show ?thesis by (simp add: update_Inactive_eq refresh_frame)
next
  case Armed
  let ?t = "tryActivate e (update_refresh C e d)"
  show ?thesis
    using Armed update_active_effects [of C e ?t]
    by (auto simp add: update_Armed_eq tryActivate_fields deactivate_fields refresh_frame Let_def)
next
  case Active
  show ?thesis
    using Active update_active_effects [of C e "update_refresh C e d"]
    by (auto simp add: update_Active_eq refresh_frame Let_def)
qed

section \<open>The demonstration director, evaluated\<close>

lemma demo_director_eval:
  "demo_director =
     \<lparr>state = Inactive,
      onActivate = True, onArm = True, onDeactivate = True, driveBank = True,
      isNavLock = False,
      callbackState = \<lparr>gpsSteerCommand = demo_command True (Num 5), rollSteerCommand = None\<rparr>,
      maxBankAngleFunc = (\<lambda>e'. maxBankAngle (apValues e')),
      bankRate = OptUndefined,
      canArmFunc = default_canArm,
      canRemainArmedFunc = default_canRemainArmed,
      canActivateFunc = default_canActivate,
      canRemainActiveFunc = default_canRemainActive,
      lnavRollSteerComputerDataProvider = DataProvider_new,
      lnavRollSteerComputer = \<lparr>rollIsValid = False, desiredBankAngle = Num 0\<rparr>,
      effects = []\<rparr>"
  by (simp add: demo_director_def APGpsSteerDirector_new_def demo_env_def demo_computer_def)

lemma demo_armed_eval:
  "demo_armed = demo_director\<lparr>state := Armed, isNavLock := True, effects := [CallOnArm]\<rparr>"
  by (simp add: demo_armed_def demo_director_eval arm_def updateCallbackState_def emit_def
      default_canArm_def demo_env_def demo_command_def)

lemma demo_refresh_eval:
  "update_refresh demo_computer (demo_env src v err) d =
     d\<lparr>lnavRollSteerComputerDataProvider :=
          (lnavRollSteerComputerDataProvider d)
            \<lparr>gs := Some (Num 50), track := Some (Num 0), heading := Some (Num 10)\<rparr>,
       lnavRollSteerComputer := \<lparr>rollIsValid = v, desiredBankAngle = err\<rparr>,
       callbackState := \<lparr>gpsSteerCommand = demo_command v err,
          rollSteerCommand = Some \<lparr>rollIsValid = v, desiredBankAngle = err\<rparr>\<rparr>\<rparr>"
  by (simp add: update_refresh_def updateCallbackState_def DataProvider_update_def demo_env_def
      demo_computer_def demo_command_def atan2_real_def RAD2DEG_def Let_def)

lemmas demo_guards = default_canArm_def default_canRemainArmed_def default_canActivate_def
  default_canRemainActive_def

lemmas demo_tick = update_def demo_refresh_eval tryActivate_def activate_def deactivate_def
  update_active_def driveBankFunc_def emit_def Let_def demo_guards

lemma demo_env_fields:
  "apValues (demo_env src v err) =
     \<lparr>maxBankAngle = Num 25, simRate = Num 1, cdiSource = Some src,
      navToNavTransferInProgress = None, others = ()\<rparr>"
  "steerCommand (demo_env src v err) = demo_command v err"
  "velocityEW (demo_env src v err) = Num 0"
  "velocityNS (demo_env src v err) = Num 50"
  "headingTrue (demo_env src v err) = Num 10"
  "now (demo_env src v err) = 0"
  by (simp_all add: demo_env_def)

lemma demo_computer_fields:
  "rsc_steerCommand demo_computer c = c"
  "rsc_reset demo_computer c = c\<lparr>rollIsValid := False\<rparr>"
  "rsc_new demo_computer = \<lparr>rollIsValid = False, desiredBankAngle = Num 0\<rparr>"
  "rsc_update demo_computer p cmd maxBank t c = \<lparr>rollIsValid = isValid cmd, desiredBankAngle = tae cmd\<rparr>"
  by (simp_all add: demo_computer_def)

lemma demo_command_fields: "isValid (demo_command v err) = v" "tae (demo_command v err) = err"
  by (simp_all add: demo_command_def)

lemmas demo_simps = demo_env_fields demo_computer_fields demo_command_fields

lemma demo_active_eval:
  "demo_active =
     demo_director\<lparr>state := Active, isNavLock := True,
       callbackState := \<lparr>gpsSteerCommand = demo_command True (Num 5),
          rollSteerCommand = Some \<lparr>rollIsValid = True, desiredBankAngle = Num 5\<rparr>\<rparr>,
       lnavRollSteerComputerDataProvider :=
          \<lparr>gs = Some (Num 50), track = Some (Num 0), heading = Some (Num 10)\<rparr>,
       lnavRollSteerComputer := \<lparr>rollIsValid = True, desiredBankAngle = Num 5\<rparr>,
       effects := [CallOnArm, CallOnActivate, CallDriveBank (Num 5) None]\<rparr>"
  by (simp add: demo_active_def demo_tick demo_simps demo_armed_eval demo_director_eval
      DataProvider_new_def)

lemma demo_lenient_eval:
  "demo_lenient =
     \<lparr>state = Active,
      onActivate = True, onArm = True, onDeactivate = True, driveBank = True,
      isNavLock = True,
      callbackState = \<lparr>gpsSteerCommand = demo_command True (Num 5),
         rollSteerCommand = Some \<lparr>rollIsValid = True, desiredBankAngle = Num 5\<rparr>\<rparr>,
      maxBankAngleFunc = (\<lambda>e'. Num 30),
      bankRate = OptNumber (Num 10),
      canArmFunc = default_canArm,
      canRemainArmedFunc = default_canRemainArmed,
      canActivateFunc = default_canActivate,
      canRemainActiveFunc = (\<lambda>apValuesInner st. True),
      lnavRollSteerComputerDataProvider =
         \<lparr>gs = Some (Num 50), track = Some (Num 0), heading = Some (Num 10)\<rparr>,
      lnavRollSteerComputer = \<lparr>rollIsValid = True, desiredBankAngle = Num 5\<rparr>,
      effects = [CallOnArm, CallOnActivate, CallDriveBank (Num 5) (Some (Num 10))]\<rparr>"
  by (simp add: demo_lenient_def demo_options_def APGpsSteerDirector_new_def arm_def
      updateCallbackState_def demo_tick demo_simps DataProvider_new_def)

lemma demo_armed_state: "state demo_armed = Armed"
  by (simp add: demo_armed_eval)

lemmas demo_run = demo_tick demo_simps demo_director_eval demo_armed_eval demo_active_eval
  demo_lenient_eval arm_def updateCallbackState_def emitted_def DataProvider_new_def

section \<open>The claims\<close>

text \<open>
  C1, as the code has it. Every step of every sequence of operations changes the
  engagement state along one of the edges Disengaged to Armed (by \<^verbatim>\<open>arm()\<close>), Armed to Active
  (by an activation), Armed or Active to Disengaged (by a deactivation), or along the edge
  that the public, unconditional \<^verbatim>\<open>activate()\<close> adds, Disengaged to Active. A sequence
  without a direct call of \<^verbatim>\<open>activate()\<close> stays on the first three edges, so there
  Active is reached from Armed only; the same holds of any single operation other than
  \<^verbatim>\<open>activate()\<close> called while Disengaged. \<^verbatim>\<open>activate()\<close> ends in Active from every state.
\<close>

theorem state_edges:
  "along code_edge C xs d
   \<and> ((\<forall>x\<in>set xs. fst x \<noteq> Activate) \<longrightarrow> along spec_edge C xs d)
   \<and> (fst x \<noteq> Activate \<or> state d \<noteq> Inactive \<longrightarrow>
        spec_edge (fst x) (state d) (state (step C x d)))
   \<and> state (step C (Activate, e) d) = Active"
  using step_spec_edge [of x d C]
  by (simp add: along_code_edge along_spec_edge activate_fields)

text \<open>
  C1 as stated fails: a direct \<^verbatim>\<open>activate()\<close> on a Disengaged director makes it Active,
  an edge that is not among the three of the claim.
\<close>

theorem state_edges_counterexample:
  "\<not> along spec_edge demo_computer [(Activate, demo_env Gps True (Num 5))] demo_director"
  by (simp add: spec_edge_def demo_run activate_fields)

text \<open>The theorem at the demonstration director.\<close>

theorem state_edges_witness:
  "Arm \<noteq> Activate \<and> Update \<noteq> Activate \<and> Deactivate \<noteq> Activate
   \<and> along spec_edge demo_computer
       [(Arm, demo_env Gps True (Num 5)), (Update, demo_env Gps True (Num 5)),
        (Update, demo_env Nav True (Num 5)), (Deactivate, demo_env Nav True (Num 5))] demo_director
   \<and> state (run demo_computer
       [(Arm, demo_env Gps True (Num 5)), (Update, demo_env Gps True (Num 5))] demo_director) = Active
   \<and> state demo_armed \<noteq> Inactive
   \<and> spec_edge Activate (state demo_armed)
       (state (step demo_computer (Activate, demo_env Gps True (Num 5)) demo_armed))"
  using state_edges [of demo_computer
      "[(Arm, demo_env Gps True (Num 5)), (Update, demo_env Gps True (Num 5)),
        (Update, demo_env Nav True (Num 5)), (Deactivate, demo_env Nav True (Num 5))]"
      demo_director "(Activate, demo_env Gps True (Num 5))" "demo_env Gps True (Num 5)"]
    state_edges [of demo_computer "[]" demo_armed "(Activate, demo_env Gps True (Num 5))"
      "demo_env Gps True (Num 5)"] demo_armed_state
  by (simp add: demo_run)

text \<open>
  C2. The calls an update makes extend the log, and every call of \<^verbatim>\<open>driveBank\<close> among them
  has a finite bank argument, which is the \<^verbatim>\<open>desiredBankAngle\<close> of the roll command computed
  in this tick, and that command is valid. So a roll command that is invalid or whose
  bank angle is not finite never reaches the sink.
\<close>

theorem drive_bank_finite:
  "effects (update C e d) = effects d @ emitted d (update C e d)
   \<and> (\<forall>b rate. CallDriveBank b rate \<in> set (emitted d (update C e d)) \<longrightarrow>
         isFinite b
       \<and> rollIsValid (rsc_steerCommand C (lnavRollSteerComputer (update_refresh C e d)))
       \<and> b = desiredBankAngle (rsc_steerCommand C (lnavRollSteerComputer (update_refresh C e d))))
   \<and> (\<not> rollIsValid (rsc_steerCommand C (lnavRollSteerComputer (update_refresh C e d)))
      \<or> \<not> isFinite (desiredBankAngle (rsc_steerCommand C (lnavRollSteerComputer (update_refresh C e d)))) \<longrightarrow>
        (\<forall>b rate. CallDriveBank b rate \<notin> set (emitted d (update C e d))))"
proof -
  obtain rate where eff: "effects (update C e d) = effects d @
     (case state d of
        Inactive \<Rightarrow> []
      | Armed \<Rightarrow>
          (if \<not> canRemainArmedFunc d (apValues e) (callbackState (update_refresh C e d))
           then (if onDeactivate d then [CallOnDeactivate] else [])
           else if \<not> canActivateFunc d (apValues e) (callbackState (update_refresh C e d)) then []
           else (if onActivate d then [CallOnActivate] else []) @
             (if \<not> canRemainActiveFunc d (apValues e) (callbackState (update_refresh C e d))
              then (if onDeactivate d then [CallOnDeactivate] else [])
              else (let r = rsc_steerCommand C (lnavRollSteerComputer (update_refresh C e d))
                    in if rollIsValid r \<and> isFinite (desiredBankAngle r) \<and> driveBank d
                       then [CallDriveBank (desiredBankAngle r) rate] else [])))
      | Active \<Rightarrow>
          (if \<not> canRemainActiveFunc d (apValues e) (callbackState (update_refresh C e d))
           then (if onDeactivate d then [CallOnDeactivate] else [])
           else (let r = rsc_steerCommand C (lnavRollSteerComputer (update_refresh C e d))
                 in if rollIsValid r \<and> isFinite (desiredBankAngle r) \<and> driveBank d
                    then [CallDriveBank (desiredBankAngle r) rate] else [])))"
    using update_effects [of C e d] by blast
  show ?thesis
    unfolding emitted_def eff
    by (cases "state d") (auto simp add: Let_def split: if_splits)
qed

text \<open>The theorem at the demonstration director.\<close>

theorem drive_bank_finite_witness:
  "CallDriveBank (Num 5) None \<in> set (emitted demo_active
       (update demo_computer (demo_env Gps True (Num 5)) demo_active))
   \<and> isFinite (Num 5)
   \<and> \<not> isFinite (desiredBankAngle (rsc_steerCommand demo_computer
         (lnavRollSteerComputer (update_refresh demo_computer (demo_env Gps True PosInf) demo_active))))
   \<and> emitted demo_active (update demo_computer (demo_env Gps True PosInf) demo_active) = []
   \<and> state (update demo_computer (demo_env Gps True PosInf) demo_active) = Active"
  using drive_bank_finite [of demo_computer "demo_env Gps True (Num 5)" demo_active]
    drive_bank_finite [of demo_computer "demo_env Gps True PosInf" demo_active]
  by (simp add: demo_run)

text \<open>
  C3, as the code has it. In a tick that starts Armed, with the three guards evaluated on
  the snapshot refreshed at the start of the tick: the tick ends Active if and only if
  \<^verbatim>\<open>canRemainArmed\<close>, \<^verbatim>\<open>canActivate\<close> and \<^verbatim>\<open>canRemainActive\<close> all return true; the director is
  activated in the tick (an assigned activate callback is called) if and only if
  \<^verbatim>\<open>canRemainArmed\<close> and \<^verbatim>\<open>canActivate\<close> return true; if \<^verbatim>\<open>canRemainArmed\<close> fails the
  director is deactivated; if only \<^verbatim>\<open>canActivate\<close> fails it stays Armed.
\<close>

theorem update_from_armed:
  assumes "state d = Armed"
  shows "(state (update C e d) = Active \<longleftrightarrow>
            canRemainArmedFunc d (apValues e) (callbackState (update_refresh C e d))
          \<and> canActivateFunc d (apValues e) (callbackState (update_refresh C e d))
          \<and> canRemainActiveFunc d (apValues e) (callbackState (update_refresh C e d)))
       \<and> (onActivate d \<longrightarrow>
            (CallOnActivate \<in> set (emitted d (update C e d)) \<longleftrightarrow>
               canRemainArmedFunc d (apValues e) (callbackState (update_refresh C e d))
             \<and> canActivateFunc d (apValues e) (callbackState (update_refresh C e d))))
       \<and> (\<not> canRemainArmedFunc d (apValues e) (callbackState (update_refresh C e d)) \<longrightarrow>
            state (update C e d) = Inactive)
       \<and> (canRemainArmedFunc d (apValues e) (callbackState (update_refresh C e d))
          \<and> \<not> canActivateFunc d (apValues e) (callbackState (update_refresh C e d)) \<longrightarrow>
            state (update C e d) = Armed)"
proof -
  let ?r = "update_refresh C e d"
  let ?t = "tryActivate e ?r"
  obtain rate where eff: "effects (update_active C e ?t) = effects ?t @
     (if state ?t = Active
      then (if \<not> canRemainActiveFunc ?t (apValues e) (callbackState ?t)
            then (if onDeactivate ?t then [CallOnDeactivate] else [])
            else (let r = rsc_steerCommand C (lnavRollSteerComputer ?t)
                  in if rollIsValid r \<and> isFinite (desiredBankAngle r) \<and> driveBank ?t
                     then [CallDriveBank (desiredBankAngle r) rate] else []))
      else [])"
    using update_active_effects [of C e ?t] by blast
  show ?thesis
    using assms eff
    by (auto simp add: update_Armed_eq update_active_state tryActivate_fields refresh_frame
        deactivate_fields emitted_def Let_def)
qed

text \<open>
  C3 as stated fails: with the default guards and a navigation source that is not GPS,
  \<^verbatim>\<open>canRemainArmed\<close> and \<^verbatim>\<open>canActivate\<close> succeed on the tick's snapshot, yet the tick does
  not end Active, because \<^verbatim>\<open>canRemainActive\<close> fails in the same call.
\<close>

theorem armed_tick_counterexample:
  "state demo_armed = Armed
   \<and> canRemainArmedFunc demo_armed (apValues (demo_env Nav True (Num 5)))
       (callbackState (update_refresh demo_computer (demo_env Nav True (Num 5)) demo_armed))
   \<and> canActivateFunc demo_armed (apValues (demo_env Nav True (Num 5)))
       (callbackState (update_refresh demo_computer (demo_env Nav True (Num 5)) demo_armed))
   \<and> state (update demo_computer (demo_env Nav True (Num 5)) demo_armed) \<noteq> Active"
  by (simp add: demo_run)

text \<open>The theorem at the demonstration director.\<close>

theorem update_from_armed_witness:
  "state demo_armed = Armed
   \<and> onActivate demo_armed
   \<and> canRemainArmedFunc demo_armed (apValues (demo_env Gps True (Num 5)))
       (callbackState (update_refresh demo_computer (demo_env Gps True (Num 5)) demo_armed))
   \<and> canActivateFunc demo_armed (apValues (demo_env Gps True (Num 5)))
       (callbackState (update_refresh demo_computer (demo_env Gps True (Num 5)) demo_armed))
   \<and> canRemainActiveFunc demo_armed (apValues (demo_env Gps True (Num 5)))
       (callbackState (update_refresh demo_computer (demo_env Gps True (Num 5)) demo_armed))
   \<and> state (update demo_computer (demo_env Gps True (Num 5)) demo_armed) = Active
   \<and> CallOnActivate \<in> set (emitted demo_armed (update demo_computer (demo_env Gps True (Num 5)) demo_armed))
   \<and> \<not> canRemainArmedFunc demo_armed (apValues (demo_env Gps False (Num 5)))
       (callbackState (update_refresh demo_computer (demo_env Gps False (Num 5)) demo_armed))
   \<and> state (update demo_computer (demo_env Gps False (Num 5)) demo_armed) = Inactive"
  using update_from_armed [OF demo_armed_state, of demo_computer "demo_env Gps True (Num 5)"]
    update_from_armed [OF demo_armed_state, of demo_computer "demo_env Gps False (Num 5)"]
    demo_armed_state
  by (simp add: demo_run)

text \<open>
  C4. In a tick that starts Active, the director ends Disengaged if and only if
  \<^verbatim>\<open>canRemainActive\<close> returns false on the snapshot of that tick, and otherwise stays
  Active. When \<^verbatim>\<open>canRemainActive\<close> holds and the roll command is invalid, the director
  stays Active and the tick makes no call at all, so none of \<^verbatim>\<open>driveBank\<close>.
\<close>

theorem update_from_active:
  assumes "state d = Active"
  shows "(state (update C e d) = Inactive \<longleftrightarrow>
            \<not> canRemainActiveFunc d (apValues e) (callbackState (update_refresh C e d)))
       \<and> (canRemainActiveFunc d (apValues e) (callbackState (update_refresh C e d)) \<longrightarrow>
            state (update C e d) = Active)
       \<and> (canRemainActiveFunc d (apValues e) (callbackState (update_refresh C e d))
          \<and> \<not> rollIsValid (rsc_steerCommand C (lnavRollSteerComputer (update_refresh C e d))) \<longrightarrow>
            state (update C e d) = Active \<and> effects (update C e d) = effects d)"
proof -
  let ?r = "update_refresh C e d"
  have st: "state ?r = Active" using assms by (simp add: refresh_frame)
  have "state (update C e d) =
      (if \<not> canRemainActiveFunc d (apValues e) (callbackState ?r) then Inactive else Active)"
    using assms st by (simp add: update_Active_eq update_active_state refresh_frame)
  moreover have "canRemainActiveFunc d (apValues e) (callbackState ?r)
      \<and> \<not> rollIsValid (rsc_steerCommand C (lnavRollSteerComputer ?r))
      \<longrightarrow> effects (update C e d) = effects d"
    using assms st by (simp add: update_Active_eq update_active_def refresh_frame Let_def)
  ultimately show ?thesis by simp
qed

text \<open>The theorem at the demonstration director.\<close>

theorem update_from_active_witness:
  "state demo_lenient = Active
   \<and> canRemainActiveFunc demo_lenient (apValues (demo_env Nav False (Num 5)))
       (callbackState (update_refresh demo_computer (demo_env Nav False (Num 5)) demo_lenient))
   \<and> \<not> rollIsValid (rsc_steerCommand demo_computer
         (lnavRollSteerComputer (update_refresh demo_computer (demo_env Nav False (Num 5)) demo_lenient)))
   \<and> state (update demo_computer (demo_env Nav False (Num 5)) demo_lenient) = Active
   \<and> effects (update demo_computer (demo_env Nav False (Num 5)) demo_lenient) = effects demo_lenient
   \<and> state demo_active = Active
   \<and> \<not> canRemainActiveFunc demo_active (apValues (demo_env Nav True (Num 5)))
       (callbackState (update_refresh demo_computer (demo_env Nav True (Num 5)) demo_active))
   \<and> state (update demo_computer (demo_env Nav True (Num 5)) demo_active) = Inactive"
proof -
  have a: "state demo_lenient = Active" by (simp add: demo_run)
  have b: "state demo_active = Active" by (simp add: demo_run)
  show ?thesis
    using update_from_active [OF a, of demo_computer "demo_env Nav False (Num 5)"]
      update_from_active [OF b, of demo_computer "demo_env Nav True (Num 5)"] a b
    by (simp add: demo_run)
qed

text \<open>
  C5. From any state, \<^verbatim>\<open>deactivate()\<close> ends Disengaged, calls the deactivate callback
  exactly once when one is assigned (and makes no other call), sets the indicator false
  and resets the roll-steer computer.
\<close>

theorem deactivate_always:
  "state (deactivate C d) = Inactive
   \<and> effects (deactivate C d) = effects d @ (if onDeactivate d then [CallOnDeactivate] else [])
   \<and> isNavLock (deactivate C d) = False
   \<and> lnavRollSteerComputer (deactivate C d) = rsc_reset C (lnavRollSteerComputer d)"
  by (simp add: deactivate_fields)

text \<open>The theorem at the demonstration director.\<close>

theorem deactivate_always_witness:
  "state demo_director = Inactive \<and> onDeactivate demo_director
   \<and> state (deactivate demo_computer demo_director) = Inactive
   \<and> emitted demo_director (deactivate demo_computer demo_director) = [CallOnDeactivate]
   \<and> isNavLock (deactivate demo_computer demo_director) = False"
  using deactivate_always [of demo_computer demo_director]
  by (simp add: demo_run emitted_def)

text \<open>
  C6. \<^verbatim>\<open>arm()\<close> in the Disengaged state evaluates \<^verbatim>\<open>canArm\<close> on the snapshot made of the
  current steering command and a null roll command. If it holds, the director becomes
  Armed, the indicator true, and the assigned arm callback is called once. If it does not
  hold, state, indicator and log of calls are unchanged. From Armed or Active, \<^verbatim>\<open>arm()\<close>
  leaves the director as it is.
\<close>

theorem arm_cases:
  "(state d = Inactive
      \<and> canArmFunc d (apValues e) \<lparr>gpsSteerCommand = steerCommand e, rollSteerCommand = None\<rparr> \<longrightarrow>
        state (arm e d) = Armed \<and> isNavLock (arm e d) = True
      \<and> effects (arm e d) = effects d @ (if onArm d then [CallOnArm] else []))
   \<and> (state d = Inactive
      \<and> \<not> canArmFunc d (apValues e) \<lparr>gpsSteerCommand = steerCommand e, rollSteerCommand = None\<rparr> \<longrightarrow>
        state (arm e d) = Inactive \<and> isNavLock (arm e d) = isNavLock d
      \<and> effects (arm e d) = effects d)
   \<and> (state d \<noteq> Inactive \<longrightarrow> arm e d = d)"
  by (simp add: arm_def updateCallbackState_def emit_def Let_def)

text \<open>The theorem at the demonstration director.\<close>

theorem arm_cases_witness:
  "state demo_director = Inactive
   \<and> canArmFunc demo_director (apValues (demo_env Gps True (Num 5)))
       \<lparr>gpsSteerCommand = steerCommand (demo_env Gps True (Num 5)), rollSteerCommand = None\<rparr>
   \<and> state (arm (demo_env Gps True (Num 5)) demo_director) = Armed
   \<and> isNavLock (arm (demo_env Gps True (Num 5)) demo_director)
   \<and> effects (arm (demo_env Gps True (Num 5)) demo_director) = [CallOnArm]
   \<and> \<not> canArmFunc demo_director (apValues (demo_env Gps False (Num 5)))
       \<lparr>gpsSteerCommand = steerCommand (demo_env Gps False (Num 5)), rollSteerCommand = None\<rparr>
   \<and> state (arm (demo_env Gps False (Num 5)) demo_director) = Inactive
   \<and> effects (arm (demo_env Gps False (Num 5)) demo_director) = []
   \<and> state demo_armed \<noteq> Inactive
   \<and> arm (demo_env Gps False (Num 5)) demo_armed = demo_armed"
  using arm_cases [of demo_director "demo_env Gps True (Num 5)"]
    arm_cases [of demo_director "demo_env Gps False (Num 5)"]
    arm_cases [of demo_armed "demo_env Gps False (Num 5)"] demo_armed_state
  by (simp add: demo_run)

text \<open>
  C7. After an update of the data provider the ground speed is the hypotenuse of the two
  velocities. If it exceeds 1 knot, the track is the normalised \<^verbatim>\<open>atan2\<close> of the velocities
  in degrees, which lies in \<open>[0, 360)\<close> when neither velocity is NaN; otherwise the track
  is the heading reading. Velocities 0 and 50 give ground speed 50 and track 0; a ground
  speed of one half gives the heading reading as track.
\<close>

theorem provider_update_values:
  "gs (DataProvider_update vew vns hdg p) = Some (hypot vew vns)
   \<and> (js_gt (hypot vew vns) (Num 1) \<longrightarrow>
        track (DataProvider_update vew vns hdg p) =
          Some (normalizeAngleDeg (js_mul (atan2 vew vns) RAD2DEG)))
   \<and> (js_gt (hypot vew vns) (Num 1) \<and> vew \<noteq> NaN \<and> vns \<noteq> NaN \<longrightarrow>
        (\<exists>t. track (DataProvider_update vew vns hdg p) = Some (Num t) \<and> 0 \<le> t \<and> t < 360))
   \<and> (\<not> js_gt (hypot vew vns) (Num 1) \<longrightarrow>
        track (DataProvider_update vew vns hdg p) = Some hdg)
   \<and> gs (DataProvider_update (Num 0) (Num 50) hdg p) = Some (Num 50)
   \<and> track (DataProvider_update (Num 0) (Num 50) hdg p) = Some (Num 0)
   \<and> (hypot vew vns = Num (1 / 2) \<longrightarrow> track (DataProvider_update vew vns hdg p) = Some hdg)"
proof -
  have range: "\<exists>t. normalizeAngleDeg (js_mul (atan2 vew vns) RAD2DEG) = Num t \<and> 0 \<le> t \<and> t < 360"
    if "vew \<noteq> NaN" "vns \<noteq> NaN"
  proof -
    from that have "isFinite (js_mul (atan2 vew vns) RAD2DEG)"
      by (simp add: atan2_finite to_degrees_finite)
    then obtain a where "js_mul (atan2 vew vns) RAD2DEG = Num a"
      by (auto simp add: isFinite_Num)
    then show ?thesis using normalizeAngleDeg_range [of a] by simp
  qed
  have north: "normalizeAngleDeg (js_mul (atan2 (Num 0) (Num 50)) RAD2DEG) = Num 0"
    by (simp add: atan2_real_def RAD2DEG_def)
  show ?thesis
    using range north by (auto simp add: DataProvider_update_def Let_def)
qed

text \<open>The theorem at the demonstration director.\<close>

theorem provider_update_values_witness:
  "js_gt (hypot (Num 0) (Num 50)) (Num 1) \<and> Num 0 \<noteq> NaN \<and> Num 50 \<noteq> NaN
   \<and> track (DataProvider_update (Num 0) (Num 50) (Num 10) DataProvider_new) = Some (Num 0)
   \<and> hypot (Num (1 / 2)) (Num 0) = Num (1 / 2)
   \<and> \<not> js_gt (hypot (Num (1 / 2)) (Num 0)) (Num 1)
   \<and> track (DataProvider_update (Num (1 / 2)) (Num 0) (Num 10) DataProvider_new) = Some (Num 10)"
  using provider_update_values [of "Num 0" "Num 50" "Num 10" DataProvider_new]
    provider_update_values [of "Num (1 / 2)" "Num 0" "Num 10" DataProvider_new]
  by (simp add: DataProvider_update_def atan2_real_def RAD2DEG_def)

text \<open>
  C8. The indicator is on exactly when the state is not Disengaged: at construction, after
  any single operation from a state where this holds, and so after every sequence of
  operations from construction.
\<close>

theorem navLock_invariant:
  "navLock_inv (APGpsSteerDirector_new C opts e0)
   \<and> (navLock_inv d \<longrightarrow> navLock_inv (step C x d))
   \<and> navLock_inv (run C xs (APGpsSteerDirector_new C opts e0))"
  by (simp add: new_navLock_inv step_navLock_inv run_navLock_inv)

text \<open>The theorem at the demonstration director.\<close>

theorem navLock_invariant_witness:
  "navLock_inv demo_armed
   \<and> navLock_inv (step demo_computer (Update, demo_env Gps True (Num 5)) demo_armed)
   \<and> state (step demo_computer (Update, demo_env Gps True (Num 5)) demo_armed) = Active
   \<and> isNavLock (step demo_computer (Update, demo_env Gps True (Num 5)) demo_armed)
   \<and> isNavLock (run demo_computer
        [(Arm, demo_env Gps True (Num 5)), (Update, demo_env Gps True (Num 5))]
        (APGpsSteerDirector_new demo_computer None (demo_env Gps True (Num 5))))"
  using navLock_invariant [of demo_computer None "demo_env Gps True (Num 5)" demo_armed
      "(Update, demo_env Gps True (Num 5))"
      "[(Arm, demo_env Gps True (Num 5)), (Update, demo_env Gps True (Num 5))]"]
  by (simp add: navLock_inv_def demo_run APGpsSteerDirector_new_def)

text \<open>
  C9. In a tick that starts Armed and in which \<^verbatim>\<open>canRemainArmed\<close> and \<^verbatim>\<open>canActivate\<close>
  succeed, the same call goes on to evaluate \<^verbatim>\<open>canRemainActive\<close> on the same snapshot. If
  it succeeds and the roll command is valid with a finite bank angle (and a \<^verbatim>\<open>driveBank\<close>
  function is assigned), the tick ends Active and its calls are the activate callback
  followed by \<^verbatim>\<open>driveBank\<close> with that bank angle. If it fails, the tick ends Disengaged,
  having called the activate and then the deactivate callback.
\<close>

theorem activation_tick_drives:
  assumes "state d = Armed"
    and "canRemainArmedFunc d (apValues e) (callbackState (update_refresh C e d))"
    and "canActivateFunc d (apValues e) (callbackState (update_refresh C e d))"
  shows "(canRemainActiveFunc d (apValues e) (callbackState (update_refresh C e d))
          \<and> rollIsValid (rsc_steerCommand C (lnavRollSteerComputer (update_refresh C e d)))
          \<and> isFinite (desiredBankAngle (rsc_steerCommand C (lnavRollSteerComputer (update_refresh C e d))))
          \<and> driveBank d \<longrightarrow>
            state (update C e d) = Active
          \<and> (\<exists>rate. effects (update C e d) =
                effects d @ (if onActivate d then [CallOnActivate] else [])
                  @ [CallDriveBank
                       (desiredBankAngle (rsc_steerCommand C (lnavRollSteerComputer (update_refresh C e d))))
                       rate]))
       \<and> (\<not> canRemainActiveFunc d (apValues e) (callbackState (update_refresh C e d)) \<longrightarrow>
            state (update C e d) = Inactive
          \<and> effects (update C e d) =
              effects d @ (if onActivate d then [CallOnActivate] else [])
                @ (if onDeactivate d then [CallOnDeactivate] else []))"
proof -
  let ?r = "update_refresh C e d"
  let ?t = "tryActivate e ?r"
  have upd: "update C e d = update_active C e ?t"
    using assms by (simp add: update_Armed_eq)
  have t: "state ?t = Active" "effects ?t = effects d @ (if onActivate d then [CallOnActivate] else [])"
    "lnavRollSteerComputer ?t = lnavRollSteerComputer ?r" "callbackState ?t = callbackState ?r"
    "canRemainActiveFunc ?t = canRemainActiveFunc d" "driveBank ?t = driveBank d"
    "onDeactivate ?t = onDeactivate d"
    using assms by (simp_all add: tryActivate_fields refresh_frame)
  obtain rate where eff: "effects (update_active C e ?t) = effects ?t @
     (if state ?t = Active
      then (if \<not> canRemainActiveFunc ?t (apValues e) (callbackState ?t)
            then (if onDeactivate ?t then [CallOnDeactivate] else [])
            else (let r = rsc_steerCommand C (lnavRollSteerComputer ?t)
                  in if rollIsValid r \<and> isFinite (desiredBankAngle r) \<and> driveBank ?t
                     then [CallDriveBank (desiredBankAngle r) rate] else []))
      else [])"
    using update_active_effects [of C e ?t] by blast
  have st: "state (update C e d) =
      (if \<not> canRemainActiveFunc d (apValues e) (callbackState ?r) then Inactive else Active)"
    by (simp add: upd update_active_state t)
  show ?thesis
    using eff st by (auto simp add: upd t Let_def)
qed

text \<open>The theorem at the demonstration director.\<close>

theorem activation_tick_drives_witness:
  "state demo_armed = Armed
   \<and> canRemainArmedFunc demo_armed (apValues (demo_env Gps True (Num 5)))
       (callbackState (update_refresh demo_computer (demo_env Gps True (Num 5)) demo_armed))
   \<and> canActivateFunc demo_armed (apValues (demo_env Gps True (Num 5)))
       (callbackState (update_refresh demo_computer (demo_env Gps True (Num 5)) demo_armed))
   \<and> canRemainActiveFunc demo_armed (apValues (demo_env Gps True (Num 5)))
       (callbackState (update_refresh demo_computer (demo_env Gps True (Num 5)) demo_armed))
   \<and> driveBank demo_armed
   \<and> state (update demo_computer (demo_env Gps True (Num 5)) demo_armed) = Active
   \<and> effects (update demo_computer (demo_env Gps True (Num 5)) demo_armed) =
       [CallOnArm, CallOnActivate, CallDriveBank (Num 5) None]"
proof -
  have g: "canRemainArmedFunc demo_armed (apValues (demo_env Gps True (Num 5)))
       (callbackState (update_refresh demo_computer (demo_env Gps True (Num 5)) demo_armed))"
    "canActivateFunc demo_armed (apValues (demo_env Gps True (Num 5)))
       (callbackState (update_refresh demo_computer (demo_env Gps True (Num 5)) demo_armed))"
    by (simp_all add: demo_run)
  show ?thesis
    using activation_tick_drives [OF demo_armed_state g]
    by (simp add: demo_run)
qed

text \<open>
  C10. An update of a Disengaged director leaves the state, the indicator and the log of
  calls as they were, and still refreshes the data provider, the roll-steer computer and
  the callback state.
\<close>

theorem update_while_inactive:
  assumes "state d = Inactive"
  shows "state (update C e d) = Inactive
       \<and> isNavLock (update C e d) = isNavLock d
       \<and> effects (update C e d) = effects d
       \<and> lnavRollSteerComputerDataProvider (update C e d) =
           DataProvider_update (velocityEW e) (velocityNS e) (headingTrue e)
             (lnavRollSteerComputerDataProvider d)
       \<and> lnavRollSteerComputer (update C e d) =
           rsc_update C (lnavRollSteerComputerDataProvider (update C e d)) (steerCommand e)
             (maxBankAngleFunc d e) (now e) (lnavRollSteerComputer d)
       \<and> callbackState (update C e d) =
           \<lparr>gpsSteerCommand = steerCommand e,
            rollSteerCommand = Some (rsc_steerCommand C (lnavRollSteerComputer (update C e d)))\<rparr>"
  using assms refresh_callbackState [of C e d]
  by (simp add: update_Inactive_eq refresh_frame refresh_provider refresh_computer)

text \<open>The theorem at the demonstration director.\<close>

theorem update_while_inactive_witness:
  "state demo_director = Inactive
   \<and> state (update demo_computer (demo_env Gps True (Num 5)) demo_director) = Inactive
   \<and> \<not> isNavLock (update demo_computer (demo_env Gps True (Num 5)) demo_director)
   \<and> effects (update demo_computer (demo_env Gps True (Num 5)) demo_director) = []
   \<and> gs (lnavRollSteerComputerDataProvider
        (update demo_computer (demo_env Gps True (Num 5)) demo_director)) = Some (Num 50)
   \<and> rollSteerCommand (callbackState
        (update demo_computer (demo_env Gps True (Num 5)) demo_director))
       = Some \<lparr>rollIsValid = True, desiredBankAngle = Num 5\<rparr>"
proof -
  have a: "state demo_director = Inactive" by (simp add: demo_run)
  show ?thesis
    using update_while_inactive [OF a, of demo_computer "demo_env Gps True (Num 5)"] a
    by (simp add: demo_run DataProvider_update_def atan2_real_def RAD2DEG_def)
qed

end
